theory Spec2Isabelle
  imports Complex_Main "HOL-Library.Word" "HOL-Library.Stream"
begin

section \<open>The Poisson tuning set of clusterloader2\<close>

text \<open>
  The development embeds \<^verbatim>\<open>clusterloader2/pkg/tuningset/poisson_load.go\<close> (the
  sampler \<^verbatim>\<open>interArrivalTime\<close> and the dispatch loop \<^verbatim>\<open>Execute\<close>) and
  \<^verbatim>\<open>clusterloader2/pkg/measurement/common/etcd_metrics.go\<close> (the action switch of
  \<^verbatim>\<open>etcdMetricsMeasurement.Execute\<close>).

  Conventions of the embedding.
  \<^item> \<^verbatim>\<open>time.Duration\<close> is Go's \<^verbatim>\<open>int64\<close> count of nanoseconds: a \<open>64 word\<close>, read
    with \<open>sint\<close>. Go's \<^verbatim>\<open>int\<close> is taken to be 64 bits wide (amd64, arm64).
  \<^item> A \<^verbatim>\<open>float64\<close> is idealised: a finite value is a \<open>real\<close> and arithmetic on finite
    values is exact (IEEE rounding is not modelled); \<open>None\<close> stands for the
    non-finite values \<^verbatim>\<open>+Inf\<close>, \<^verbatim>\<open>-Inf\<close> and \<^verbatim>\<open>NaN\<close>.
  \<^item> A \<^verbatim>\<open>time.Time\<close> is an unbounded integer count of nanoseconds on the monotonic
    clock; the (astronomical) range of \<^verbatim>\<open>time.Time\<close> is not modelled.
  \<^item> The process-wide random source, the clock, the time the driving goroutine
    loses and the time the launched actions take belong to the environment: they
    are fields of the world the functions pass along.
\<close>

subsection \<open>Durations and floating-point values\<close>

type_synonym Duration = "64 word"

type_synonym Time = int

type_synonym float64 = "real option"

text \<open>\<^verbatim>\<open>time.Second\<close>, in nanoseconds.\<close>

definition Second :: Duration where
  "Second = 1000000000"

text \<open>The bounds of \<^verbatim>\<open>int64\<close>.\<close>

definition MinInt64 :: int where
  "MinInt64 = - (2 ^ 63)"

definition MaxInt64 :: int where
  "MaxInt64 = 2 ^ 63 - 1"

text \<open>
  The float operations the sampler uses. Division by zero and the logarithm of a
  value that is not positive leave the finite values, as they do in Go
  (\<^verbatim>\<open>math.Log(0) = -Inf\<close>, \<^verbatim>\<open>math.Log(x) = NaN\<close> for \<^verbatim>\<open>x < 0\<close>, \<^verbatim>\<open>x / 0\<close> is
  infinite or \<^verbatim>\<open>NaN\<close>).
\<close>

definition fsub :: "float64 \<Rightarrow> float64 \<Rightarrow> float64" where
  "fsub a b = (case (a, b) of (Some x, Some y) \<Rightarrow> Some (x - y) | _ \<Rightarrow> None)"

definition fneg :: "float64 \<Rightarrow> float64" where
  "fneg a = (case a of Some x \<Rightarrow> Some (- x) | None \<Rightarrow> None)"

definition fmul :: "float64 \<Rightarrow> float64 \<Rightarrow> float64" where
  "fmul a b = (case (a, b) of (Some x, Some y) \<Rightarrow> Some (x * y) | _ \<Rightarrow> None)"

definition fdiv :: "float64 \<Rightarrow> float64 \<Rightarrow> float64" where
  "fdiv a b =
     (case (a, b) of
        (Some x, Some y) \<Rightarrow> if y = 0 then None else Some (x / y)
      | _ \<Rightarrow> None)"

definition Log :: "float64 \<Rightarrow> float64" where
  "Log a = (case a of Some x \<Rightarrow> if 0 < x then Some (ln x) else None | None \<Rightarrow> None)"

text \<open>\<^verbatim>\<open>float64(d)\<close> of an integer duration.\<close>

definition float64_of_Duration :: "Duration \<Rightarrow> float64" where
  "float64_of_Duration d = Some (real_of_int (sint d))"

text \<open>
  The conversion \<^verbatim>\<open>int(x)\<close> of a float discards the fraction (truncation towards
  zero). When the truncated value is not an \<^verbatim>\<open>int64\<close>, or \<^verbatim>\<open>x\<close> is not finite, the
  Go specification leaves the result to the implementation: the parameter \<open>arch\<close>
  is that choice.
\<close>

definition trunc :: "real \<Rightarrow> int" where
  "trunc x = (if 0 \<le> x then \<lfloor>x\<rfloor> else \<lceil>x\<rceil>)"

definition int_of_float64 :: "(float64 \<Rightarrow> Duration) \<Rightarrow> float64 \<Rightarrow> Duration" where
  "int_of_float64 arch a =
     (case a of
        Some x \<Rightarrow>
          if MinInt64 \<le> trunc x \<and> trunc x \<le> MaxInt64
          then word_of_int (trunc x)
          else arch a
      | None \<Rightarrow> arch a)"

text \<open>
  One implementation: on amd64 the instruction \<^verbatim>\<open>CVTTSD2SQ\<close> answers every value it
  cannot convert (too large, too small, infinite, \<^verbatim>\<open>NaN\<close>) with the smallest
  \<^verbatim>\<open>int64\<close>.
\<close>

definition amd64 :: "float64 \<Rightarrow> Duration" where
  "amd64 a = word_of_int MinInt64"

subsection \<open>The world of the driving goroutine\<close>

text \<open>
  The calls of the driving goroutine into the clock and the wait group are kept in
  a trace, in the order they happen:
  \<^item> \<open>EvNow t\<close>: \<^verbatim>\<open>time.Now()\<close> returned \<open>t\<close>;
  \<^item> \<open>EvUntil t u d\<close>: \<^verbatim>\<open>time.Until(t)\<close> read the clock at \<open>u\<close> and returned \<open>d\<close>;
  \<^item> \<open>EvSleep d s e\<close>: \<^verbatim>\<open>time.Sleep(d)\<close> was called at \<open>s\<close> and returned at \<open>e\<close>;
  \<^item> \<open>EvStart f u x\<close>: \<^verbatim>\<open>wg.Start(f)\<close> was called at \<open>u\<close>, and the goroutine it started
    exits at \<open>x\<close> (\<open>None\<close>: the action never returns);
  \<^item> \<open>EvWait fs\<close>: \<^verbatim>\<open>wg.Wait()\<close> was called on the group of the actions \<open>fs\<close>.

  An action is opaque: a value of the type \<open>'a\<close>. All the model knows of its
  execution is how long the goroutine that runs it lives; the field \<open>runs\<close> of the
  world holds that time for the goroutines started one after the other.
\<close>

datatype 'a event =
    EvNow Time
  | EvUntil Time Time Duration
  | EvSleep Duration Time Time
  | EvStart 'a Time "Time option"
  | EvWait "'a list"

record 'a world =
  now :: Time
  rand :: "real stream"
  lag :: "nat stream"
  runs :: "nat option stream"
  trace :: "'a event list"

text \<open>
  \<^verbatim>\<open>rand.Float64()\<close>: the next value of the random source. Its contract, a value in
  the half-open interval from 0 to 1, is a hypothesis of the theorems that need it.
\<close>

definition Float64 :: "'a world \<Rightarrow> real \<times> 'a world" where
  "Float64 w = (shd (rand w), w\<lparr>rand := stl (rand w)\<rparr>)"

text \<open>
  Time the driving goroutine loses (scheduling, the work of a statement): the
  environment decides how much, never a negative amount.
\<close>

definition tick :: "'a world \<Rightarrow> 'a world" where
  "tick w = w\<lparr>now := now w + int (shd (lag w)), lag := stl (lag w)\<rparr>"

subsection \<open>interArrivalTime\<close>

text \<open>
  \<^verbatim>\<open>p := rand.Float64()\<close>
  \<^verbatim>\<open>time.Duration(int(float64(time.Second) * (-math.Log(1-p) / MeanRate)))\<close>
\<close>

definition interArrivalTime ::
  "(float64 \<Rightarrow> Duration) \<Rightarrow> real \<Rightarrow> 'a world \<Rightarrow> Duration \<times> 'a world" where
  "interArrivalTime arch MeanRate w =
     (let (p, w') = Float64 w;
          actionInterArrrivalTime =
            int_of_float64 arch
              (fmul (float64_of_Duration Second)
                 (fdiv (fneg (Log (fsub (Some 1) (Some p)))) (Some MeanRate)))
      in (actionInterArrrivalTime, w'))"

subsection \<open>The clock and the wait group\<close>

definition observe :: "'a event \<Rightarrow> 'a world \<Rightarrow> 'a world" where
  "observe e w = w\<lparr>trace := trace w @ [e]\<rparr>"

definition Now :: "'a world \<Rightarrow> Time \<times> 'a world" where
  "Now w = (now w, observe (EvNow (now w)) w)"

text \<open>\<^verbatim>\<open>t.Add(d)\<close>.\<close>

definition Add :: "Time \<Rightarrow> Duration \<Rightarrow> Time" where
  "Add t d = t + sint d"

text \<open>
  \<^verbatim>\<open>time.Until(t)\<close> is \<^verbatim>\<open>t.Sub(time.Now())\<close>: the difference, or the largest
  (smallest) duration when the difference does not fit.
\<close>

definition Sub :: "Time \<Rightarrow> Time \<Rightarrow> Duration" where
  "Sub t u =
     (if t - u < MinInt64 then word_of_int MinInt64
      else if MaxInt64 < t - u then word_of_int MaxInt64
      else word_of_int (t - u))"

definition Until :: "Time \<Rightarrow> 'a world \<Rightarrow> Duration \<times> 'a world" where
  "Until t w = (Sub t (now w), observe (EvUntil t (now w) (Sub t (now w))) w)"

text \<open>
  \<^verbatim>\<open>time.Sleep(d)\<close> pauses the goroutine for at least \<^verbatim>\<open>d\<close>; a negative or zero
  duration makes it return immediately.
\<close>

definition Sleep :: "Duration \<Rightarrow> 'a world \<Rightarrow> 'a world" where
  "Sleep d w =
     (let w' = (if sint d \<le> 0 then w else tick (w\<lparr>now := now w + sint d\<rparr>))
      in observe (EvSleep d (now w) (now w')) w')"

text \<open>
  \<^verbatim>\<open>wait.Group\<close>: the group is the list of the actions started in it, each with
  the instant at which its goroutine exits. \<^verbatim>\<open>Start\<close> adds the action to the group,
  starts the goroutine and returns. \<^verbatim>\<open>Wait\<close> blocks until every goroutine of the
  group has exited: it returns at once when they all have (so for the empty group),
  at the last exit or later otherwise, and never when an action never returns.
  (A panic in an action ends the whole process; such runs are not modelled.)
\<close>

type_synonym 'a Group = "('a \<times> Time option) list"

text \<open>The instant at which a goroutine started now exits.\<close>

definition exit_instant :: "'a world \<Rightarrow> Time option" where
  "exit_instant w = (case shd (runs w) of Some n \<Rightarrow> Some (now w + int n) | None \<Rightarrow> None)"

definition wg_Start :: "'a \<Rightarrow> 'a Group \<Rightarrow> 'a world \<Rightarrow> 'a Group \<times> 'a world" where
  "wg_Start f g w =
     (let x = exit_instant w
      in (g @ [(f, x)], tick (observe (EvStart f (now w) x) (w\<lparr>runs := stl (runs w)\<rparr>))))"

text \<open>The last exit of a group, but not before \<open>t\<close>; \<open>None\<close> when an exit never comes.\<close>

fun last_exit :: "'a Group \<Rightarrow> Time \<Rightarrow> Time option" where
  "last_exit [] t = Some t"
| "last_exit ((f, None) # g) t = None"
| "last_exit ((f, Some c) # g) t = last_exit g (max c t)"

text \<open>A call returns, or the goroutine stays blocked in it.\<close>

datatype 'a run = Returned "'a world" | Blocked "'a world"

fun world_of :: "'a run \<Rightarrow> 'a world" where
  "world_of (Returned w) = w"
| "world_of (Blocked w) = w"

definition wg_Wait :: "'a Group \<Rightarrow> 'a world \<Rightarrow> 'a run" where
  "wg_Wait g w =
     (let w' = observe (EvWait (map fst g)) w
      in case last_exit g (now w) of
           None \<Rightarrow> Blocked w'
         | Some t \<Rightarrow> Returned (if t \<le> now w then w' else tick (w'\<lparr>now := t\<rparr>)))"

subsection \<open>poissonLoad.Execute\<close>

text \<open>
  \<^verbatim>\<open>api.PoissonLoad\<close> is declared outside the two files; the only field the code
  reads is \<^verbatim>\<open>ExpectedActionsPerSecond\<close>, a \<^verbatim>\<open>float64\<close> (taken finite). The receiver
  holds a configuration (\<^verbatim>\<open>params\<close> is not \<^verbatim>\<open>nil\<close>).
\<close>

record PoissonLoad =
  ExpectedActionsPerSecond :: real

record poissonLoad =
  params :: PoissonLoad

definition newPoissonLoad :: "PoissonLoad \<Rightarrow> poissonLoad" where
  "newPoissonLoad ps = \<lparr>params = ps\<rparr>"

text \<open>
  The body of \<^verbatim>\<open>for i := range actions\<close>, one equation per iteration: the
  arguments are the actions still to come, \<^verbatim>\<open>actionNextLaunch\<close> and the group
  \<^verbatim>\<open>wg\<close> (here \<open>g\<close>).
\<close>

fun poissonLoad_loop ::
  "(float64 \<Rightarrow> Duration) \<Rightarrow> poissonLoad \<Rightarrow> 'a list \<Rightarrow> Time \<Rightarrow> 'a Group \<Rightarrow> 'a world
     \<Rightarrow> 'a Group \<times> 'a world" where
  "poissonLoad_loop arch rl [] actionNextLaunch g w = (g, w)"
| "poissonLoad_loop arch rl (f # fs) actionNextLaunch g w =
     (let (d, w1) = Until actionNextLaunch w;
          w2 = Sleep d w1;
          (g', w3) = wg_Start f g w2;
          (a, w4) = interArrivalTime arch (ExpectedActionsPerSecond (params rl)) w3
      in poissonLoad_loop arch rl fs (Add actionNextLaunch a) g' w4)"

definition poissonLoad_Execute ::
  "(float64 \<Rightarrow> Duration) \<Rightarrow> poissonLoad \<Rightarrow> 'a list \<Rightarrow> 'a world \<Rightarrow> 'a run" where
  "poissonLoad_Execute arch rl actions w =
     (let (actionNextLaunch, w0) = Now w;
          (g, w') = poissonLoad_loop arch rl actions actionNextLaunch [] w0
      in wg_Wait g w')"

text \<open>Reading a trace.\<close>

fun schedule_points :: "'a event list \<Rightarrow> Time list" where
  "schedule_points [] = []"
| "schedule_points (EvUntil t u d # es) = t # schedule_points es"
| "schedule_points (e # es) = schedule_points es"

fun untils :: "'a event list \<Rightarrow> (Time \<times> Time \<times> Duration) list" where
  "untils [] = []"
| "untils (EvUntil t u d # es) = (t, u, d) # untils es"
| "untils (e # es) = untils es"

fun sleeps :: "'a event list \<Rightarrow> (Duration \<times> Time \<times> Time) list" where
  "sleeps [] = []"
| "sleeps (EvSleep d s e # es) = (d, s, e) # sleeps es"
| "sleeps (e # es) = sleeps es"

fun launches :: "'a event list \<Rightarrow> ('a \<times> Time) list" where
  "launches [] = []"
| "launches (EvStart f u x # es) = (f, u) # launches es"
| "launches (e # es) = launches es"

fun goroutines :: "'a event list \<Rightarrow> 'a Group" where
  "goroutines [] = []"
| "goroutines (EvStart f u x # es) = (f, x) # goroutines es"
| "goroutines (e # es) = goroutines es"

text \<open>A goroutine has exited by the instant \<open>t\<close>.\<close>

fun exited_by :: "Time \<Rightarrow> 'a \<times> Time option \<Rightarrow> bool" where
  "exited_by t (f, Some c) = (c \<le> t)"
| "exited_by t (f, None) = False"

text \<open>
  The sample that \<^verbatim>\<open>interArrivalTime\<close> makes of the draw \<open>p\<close>, and the cumulative
  distribution function of the exponential distribution of rate \<open>r\<close>.
\<close>

definition sample :: "(float64 \<Rightarrow> Duration) \<Rightarrow> real \<Rightarrow> real \<Rightarrow> Duration" where
  "sample arch MeanRate p =
     int_of_float64 arch
       (fmul (float64_of_Duration Second)
          (fdiv (fneg (Log (fsub (Some 1) (Some p)))) (Some MeanRate)))"


text \<open>The sample of the draw one half at one action per second, in nanoseconds.\<close>

definition half_sample :: int where
  "half_sample = \<lfloor>1000000000 * ln (2::real)\<rfloor>"

text \<open>
  A world for concrete runs: the clock reads \<open>t\<close>, every draw of the random source
  is \<open>p\<close>, whenever the driving goroutine loses time it loses \<open>l\<close> nanoseconds, and
  every goroutine exits 1000 nanoseconds after its start.
\<close>

definition steady :: "Time \<Rightarrow> real \<Rightarrow> nat \<Rightarrow> string world" where
  "steady t p l =
     \<lparr>now = t, rand = sconst p, lag = sconst l, runs = sconst (Some 1000), trace = []\<rparr>"

text \<open>
  The world at the end of the run of two actions at one action per second that
  begins in \<open>steady 100 (1 / 2) 7\<close> (see \<open>Execute_run\<close> below).
\<close>

definition run_end :: "string world" where
  "run_end =
     \<lparr>now = 1114 + half_sample, rand = sconst (1 / 2), lag = sconst 7,
      runs = sconst (Some 1000),
      trace =
        [EvNow 100,
         EvUntil 100 100 (Sub 100 100), EvSleep (Sub 100 100) 100 100,
         EvStart ''a'' 100 (Some 1100),
         EvUntil (100 + half_sample) 107 (Sub (100 + half_sample) 107),
         EvSleep (Sub (100 + half_sample) 107) 107 (107 + half_sample),
         EvStart ''b'' (107 + half_sample) (Some (1107 + half_sample)),
         EvWait [''a'', ''b'']]\<rparr>"

section \<open>The etcd metrics measurement\<close>

text \<open>
  \<^verbatim>\<open>etcdMetricsMeasurement.Execute\<close> reads its parameters, then switches on the
  action. An error is a value: one constructor for each \<^verbatim>\<open>fmt.Errorf\<close> of the file,
  with the values it formats, two for what a lookup helper can report, and one for
  the errors of the other functions the file calls.
\<close>

datatype error =
    UnknownAction string
  | SshConnection int "error option"
  | NoDatabaseSizeMetric
  | KeyNotFound string
  | TypeAssertion string
  | ExternalError string

text \<open>A goroutine panics where Go says so (closing a closed channel).\<close>

datatype 'r outcome = Return 'r | Panic string

text \<open>
  \<^verbatim>\<open>model.Sample\<close> (the metric's labels and the value) and the result of
  \<^verbatim>\<open>measurementutil.SSH\<close>, as far as the file reads them.
\<close>

record Sample =
  Metric :: "string \<rightharpoonup> string"
  Value :: real

record SSHResult =
  Stdout :: string
  Code :: int

definition MetricNameLabel :: string where
  "MetricNameLabel = ''__name__''"

text \<open>Reading a Go map of strings: the empty string for a missing key.\<close>

definition label :: "Sample \<Rightarrow> string \<Rightarrow> string" where
  "label s k = (case Metric s k of Some v \<Rightarrow> v | None \<Rightarrow> [])"

text \<open>
  \<^verbatim>\<open>etcdMetrics\<close>; a \<^verbatim>\<open>measurementutil.HistogramVec\<close> is a slice, of elements of a
  type \<open>'b\<close> declared elsewhere.
\<close>

record 'b etcdMetrics =
  BackendCommitDuration :: "'b list"
  SnapshotSaveTotalDuration :: "'b list"
  PeerRoundTripTime :: "'b list"
  WalFsyncDuration :: "'b list"
  MaxDatabaseSize :: real

definition newEtcdMetrics :: "'b etcdMetrics" where
  "newEtcdMetrics =
     \<lparr>BackendCommitDuration = [], SnapshotSaveTotalDuration = [],
      PeerRoundTripTime = [], WalFsyncDuration = [], MaxDatabaseSize = 0\<rparr>"

text \<open>
  \<^verbatim>\<open>etcdMetricsMeasurement\<close>. The channel \<^verbatim>\<open>stopCh\<close> is only ever closed: the model
  keeps whether it is. The wait group \<^verbatim>\<open>wg\<close> is the list of the collecting
  goroutines started and not yet exited, each with the provider, host and interval
  it polls with. What such a goroutine does between its start and the closing of
  \<^verbatim>\<open>stopCh\<close> (it raises \<^verbatim>\<open>MaxDatabaseSize\<close>) runs beside \<^verbatim>\<open>Execute\<close> and is not part
  of this model.
\<close>

record 'b etcdMetricsMeasurement =
  stopCh_closed :: bool
  wg :: "(string \<times> string \<times> Duration) list"
  metrics :: "'b etcdMetrics"

definition createEtcdMetricsMeasurement :: "'b etcdMetricsMeasurement" where
  "createEtcdMetricsMeasurement =
     \<lparr>stopCh_closed = False, wg = [], metrics = newEtcdMetrics\<rparr>"

text \<open>
  What the file calls and does not define: the lookup helpers of package
  \<^verbatim>\<open>util\<close> on \<^verbatim>\<open>config.Params\<close> (a dictionary, of a type \<open>'p\<close>), the cluster
  configuration, and \<^verbatim>\<open>SSH\<close>, \<^verbatim>\<open>ExtractMetricSamples\<close> and
  \<^verbatim>\<open>ConvertSampleToBucket\<close> of package \<^verbatim>\<open>measurementutil\<close>. They are parameters.
\<close>

record ('p, 'b) externals =
  GetString :: "'p \<Rightarrow> string \<Rightarrow> error + string"
  GetStringOrDefault :: "'p \<Rightarrow> string \<Rightarrow> string \<Rightarrow> error + string"
  GetDurationOrDefault :: "'p \<Rightarrow> string \<Rightarrow> Duration \<Rightarrow> error + Duration"
  ClusterConfig_Provider :: string
  ClusterConfig_MasterIP :: string
  SSH :: "string \<Rightarrow> string \<Rightarrow> string \<Rightarrow> SSHResult \<times> error option"
  ExtractMetricSamples :: "string \<Rightarrow> error + Sample list"
  ConvertSampleToBucket :: "Sample \<Rightarrow> 'b list \<Rightarrow> 'b list"

record 'p MeasurementConfig =
  Params :: 'p

definition Minute :: Duration where
  "Minute = 60 * Second"

definition getEtcdMetrics ::
  "('p, 'b) externals \<Rightarrow> string \<Rightarrow> string \<Rightarrow> error + Sample list" where
  "getEtcdMetrics x provider host =
     (if provider = ''gke'' then Inr []
      else
        (let cmd = ''curl http://localhost:2379/metrics'';
             (sshResult, err) = SSH x cmd (host @ '':22'') provider
         in if err \<noteq> None \<or> Code sshResult \<noteq> 0
            then Inl (SshConnection (Code sshResult) err)
            else ExtractMetricSamples x (Stdout sshResult)))"

text \<open>
  \<^verbatim>\<open>getEtcdDatabaseSize\<close>: the value of the first sample of the database size metric.
  Only the collecting goroutine calls it.
\<close>

definition getEtcdDatabaseSize ::
  "('p, 'b) externals \<Rightarrow> string \<Rightarrow> string \<Rightarrow> error + real" where
  "getEtcdDatabaseSize x provider host =
     (case getEtcdMetrics x provider host of
        Inl err \<Rightarrow> Inl err
      | Inr samples \<Rightarrow>
          (case find (\<lambda>s. label s MetricNameLabel = ''etcd_debugging_mvcc_db_total_size_in_bytes'')
                  samples of
             Some s \<Rightarrow> Inr (Value s)
           | None \<Rightarrow> Inl NoDatabaseSizeMetric))"

text \<open>
  \<^verbatim>\<open>startCollecting\<close> adds one goroutine to the group and starts it; the goroutine
  polls until \<^verbatim>\<open>stopCh\<close> is closed.
\<close>

definition startCollecting ::
  "string \<Rightarrow> string \<Rightarrow> Duration \<Rightarrow> 'b etcdMetricsMeasurement \<Rightarrow> 'b etcdMetricsMeasurement" where
  "startCollecting provider host interval e = e\<lparr>wg := wg e @ [(provider, host, interval)]\<rparr>"

text \<open>
  \<^verbatim>\<open>stopAndSummarize\<close> closes \<^verbatim>\<open>stopCh\<close>, waits for the group (the collecting
  goroutines exit), fetches the metrics once more and sorts the samples into the
  four histograms; \<open>summarize_sample\<close> is the body of its loop over the samples.
\<close>

definition summarize_sample ::
  "('p, 'b) externals \<Rightarrow> 'b etcdMetrics \<Rightarrow> Sample \<Rightarrow> 'b etcdMetrics" where
  "summarize_sample x m s =
     (let name = label s MetricNameLabel
      in if name = ''etcd_disk_backend_commit_duration_seconds_bucket''
         then m\<lparr>BackendCommitDuration := ConvertSampleToBucket x s (BackendCommitDuration m)\<rparr>
         else if name = ''etcd_debugging_snap_save_total_duration_seconds_bucket''
         then m\<lparr>SnapshotSaveTotalDuration :=
                  ConvertSampleToBucket x s (SnapshotSaveTotalDuration m)\<rparr>
         else if name = ''etcd_disk_wal_fsync_duration_seconds_bucket''
         then m\<lparr>WalFsyncDuration := ConvertSampleToBucket x s (WalFsyncDuration m)\<rparr>
         else if name = ''etcd_network_peer_round_trip_time_seconds_bucket''
         then m\<lparr>PeerRoundTripTime := ConvertSampleToBucket x s (PeerRoundTripTime m)\<rparr>
         else m)"

definition stopAndSummarize ::
  "('p, 'b) externals \<Rightarrow> string \<Rightarrow> string \<Rightarrow> 'b etcdMetricsMeasurement
     \<Rightarrow> (error option \<times> 'b etcdMetricsMeasurement) outcome" where
  "stopAndSummarize x provider host e =
     (if stopCh_closed e then Panic ''close of closed channel''
      else
        (let e' = e\<lparr>stopCh_closed := True, wg := []\<rparr>
         in case getEtcdMetrics x provider host of
              Inl err \<Rightarrow> Return (Some err, e')
            | Inr samples \<Rightarrow>
                Return (None, e'\<lparr>metrics := foldl (summarize_sample x) (metrics e') samples\<rparr>)))"

definition etcdMetricsMeasurement_Execute ::
  "('p, 'b) externals \<Rightarrow> 'p MeasurementConfig \<Rightarrow> 'b etcdMetricsMeasurement
     \<Rightarrow> (('b etcdMetrics list \<times> error option) \<times> 'b etcdMetricsMeasurement) outcome" where
  "etcdMetricsMeasurement_Execute x config e =
     (let summaries = []
      in case GetString x (Params config) ''action'' of
           Inl err \<Rightarrow> Return ((summaries, Some err), e)
         | Inr action \<Rightarrow>
        (case GetStringOrDefault x (Params config) ''provider'' (ClusterConfig_Provider x) of
           Inl err \<Rightarrow> Return ((summaries, Some err), e)
         | Inr provider \<Rightarrow>
        (case GetStringOrDefault x (Params config) ''host'' (ClusterConfig_MasterIP x) of
           Inl err \<Rightarrow> Return ((summaries, Some err), e)
         | Inr host \<Rightarrow>
             if action = ''start'' then
               (case GetDurationOrDefault x (Params config) ''waitTime'' Minute of
                  Inl err \<Rightarrow> Return ((summaries, Some err), e)
                | Inr waitTime \<Rightarrow>
                    Return ((summaries, None), startCollecting provider host waitTime e))
             else if action = ''gather'' then
               (case stopAndSummarize x provider host e of
                  Panic msg \<Rightarrow> Panic msg
                | Return (Some err, e') \<Rightarrow> Return ((summaries, Some err), e')
                | Return (None, e') \<Rightarrow> Return ((summaries @ [metrics e'], None), e'))
             else Return ((summaries, Some (UnknownAction action)), e))))"

text \<open>
  An instance of the lookup helpers for concrete runs. A dictionary maps a key to
  a dynamically typed value; a lookup answers with the string (the duration)
  found under the key, with the default when the key is missing and there is a
  default, and with an error when the key is missing and there is none or when
  the value is of another type.
\<close>

datatype dyn = DString string | DInt int

definition lookup_string :: "(string \<rightharpoonup> dyn) \<Rightarrow> string \<Rightarrow> string option \<Rightarrow> error + string" where
  "lookup_string dict key defaultValue =
     (case dict key of
        None \<Rightarrow> (case defaultValue of Some v \<Rightarrow> Inr v | None \<Rightarrow> Inl (KeyNotFound key))
      | Some (DString v) \<Rightarrow> Inr v
      | Some (DInt n) \<Rightarrow> Inl (TypeAssertion key))"

definition lookup_duration :: "(string \<rightharpoonup> dyn) \<Rightarrow> string \<Rightarrow> Duration \<Rightarrow> error + Duration" where
  "lookup_duration dict key defaultValue =
     (case dict key of
        None \<Rightarrow> Inr defaultValue
      | Some (DInt n) \<Rightarrow> Inr (word_of_int n)
      | Some (DString v) \<Rightarrow> Inl (TypeAssertion key))"

definition testbed :: "(string \<rightharpoonup> dyn, 'b) externals" where
  "testbed =
     \<lparr>GetString = (\<lambda>dict key. lookup_string dict key None),
      GetStringOrDefault = (\<lambda>dict key v. lookup_string dict key (Some v)),
      GetDurationOrDefault = lookup_duration,
      ClusterConfig_Provider = ''gce'',
      ClusterConfig_MasterIP = ''10.0.0.1'',
      SSH = (\<lambda>cmd host provider. (\<lparr>Stdout = [], Code = 0\<rparr>, None)),
      ExtractMetricSamples = (\<lambda>data. Inr []),
      ConvertSampleToBucket = (\<lambda>s h. h)\<rparr>"

text \<open>
  Two requests with an action that is neither \<^verbatim>\<open>start\<close> nor \<^verbatim>\<open>gather\<close>; the
  second one carries a provider that is not a string.
\<close>

definition stop_request :: "(string \<rightharpoonup> dyn) MeasurementConfig" where
  "stop_request = \<lparr>Params = [''action'' \<mapsto> DString ''stop'']\<rparr>"

definition ill_typed_request :: "(string \<rightharpoonup> dyn) MeasurementConfig" where
  "ill_typed_request =
     \<lparr>Params = [''action'' \<mapsto> DString ''stop'', ''provider'' \<mapsto> DInt 5]\<rparr>"

section \<open>The sampler\<close>

subsection \<open>Arithmetic of the sample\<close>

lemma sint_in_range:
  "MinInt64 \<le> n \<Longrightarrow> n \<le> MaxInt64 \<Longrightarrow> sint (word_of_int n :: 64 word) = n"
  by (simp add: MinInt64_def MaxInt64_def sint_sbintrunc' signed_take_bit_int_eq_self)


text \<open>For a rate above zero and a draw below one, every float on the way is finite.\<close>

lemma sample_value:
  assumes "0 < r" and "p < 1"
  shows "fmul (float64_of_Duration Second) (fdiv (fneg (Log (fsub (Some 1) (Some p)))) (Some r))
         = Some (1000000000 * (- ln (1 - p) / r))"
  using assms
  by (simp add: fmul_def fdiv_def fneg_def Log_def fsub_def float64_of_Duration_def Second_def)

lemma sample_nonneg:
  assumes "0 < r" and "0 \<le> p" and "p < 1"
  shows "0 \<le> 1000000000 * (- ln (1 - p) / (r::real))"
proof -
  have "0 < 1 - p" and "1 - p \<le> 1" using assms by auto
  then have "0 \<le> - ln (1 - p)" by (simp only: ln_le_zero_iff neg_0_le_iff_le)
  then have "0 \<le> - ln (1 - p) / r" using assms(1) by (intro divide_nonneg_pos)
  then show ?thesis by (intro mult_nonneg_nonneg) simp_all
qed


lemma interArrivalTime_sample:
  "interArrivalTime arch r w = (sample arch r (shd (rand w)), w\<lparr>rand := stl (rand w)\<rparr>)"
  by (simp add: interArrivalTime_def sample_def Float64_def)

text \<open>A sample that fits: the conversion drops the fraction.\<close>

lemma sample_in_range:
  assumes "0 < r" and "0 \<le> p" and "p < 1"
    and "1000000000 * (- ln (1 - p) / r) < 2 ^ 63"
  shows "sample arch r p = word_of_int \<lfloor>1000000000 * (- ln (1 - p) / r)\<rfloor>"
    and "0 \<le> \<lfloor>1000000000 * (- ln (1 - p) / r)\<rfloor>"
    and "MinInt64 \<le> \<lfloor>1000000000 * (- ln (1 - p) / r)\<rfloor>"
    and "\<lfloor>1000000000 * (- ln (1 - p) / r)\<rfloor> \<le> MaxInt64"
proof -
  let ?x = "1000000000 * (- ln (1 - p) / r)"
  have nn: "0 \<le> ?x" using assms(1-3) by (rule sample_nonneg)
  then have tr: "trunc ?x = \<lfloor>?x\<rfloor>" by (simp add: trunc_def)
  show "0 \<le> \<lfloor>?x\<rfloor>" using nn by (simp only: zero_le_floor)
  then show lo: "MinInt64 \<le> \<lfloor>?x\<rfloor>" by (simp add: MinInt64_def)
  have "\<lfloor>?x\<rfloor> < 2 ^ 63" using assms(4) by (simp only: floor_less_iff) simp
  then show hi: "\<lfloor>?x\<rfloor> \<le> MaxInt64" by (simp add: MaxInt64_def)
  have "sample arch r p = int_of_float64 arch (Some ?x)"
    using assms(1,3) by (simp add: sample_def sample_value)
  also have "\<dots> = word_of_int \<lfloor>?x\<rfloor>"
    using lo hi by (simp only: int_of_float64_def tr option.case if_True simp_thms)
  finally show "sample arch r p = word_of_int \<lfloor>?x\<rfloor>" .
qed


subsection \<open>Two concrete draws\<close>



lemma ln2_ge_half: "1 / 2 \<le> ln (2::real)"
proof -
  have "ln (1 / 2 :: real) \<le> 1 / 2 - 1" by (rule ln_le_minus_one) simp
  then show ?thesis by (simp add: ln_div)
qed

lemma neg_ln_half: "- ln (1 - 1 / 2 :: real) = ln 2"
  by (simp add: ln_div)

text \<open>The draw one half at a rate of at least one action per second fits.\<close>

lemma half_sample_bound:
  assumes "1 \<le> r"
  shows "1000000000 * (- ln (1 - 1 / 2) / r) < (2::real) ^ 63"
proof -
  have a: "ln (2::real) < 2" by (rule ln_less_self) simp
  have b: "0 \<le> ln (2::real)" by simp
  have "ln 2 / r \<le> ln 2 / 1" using assms b by (intro divide_left_mono) simp_all
  also have "\<dots> = ln 2" by simp
  also note a
  finally have "1000000000 * (ln 2 / r) < 1000000000 * 2"
    by (simp only: mult_less_cancel_left_pos zero_less_numeral)
  also have "\<dots> < (2::real) ^ 63" by simp
  finally show ?thesis by (simp only: neg_ln_half)
qed




subsection \<open>The sample is the inverse of the exponential distribution function\<close>




subsection \<open>The sample is not negative\<close>




section \<open>The dispatch loop\<close>

subsection \<open>Reading a trace piece by piece\<close>

lemma schedule_points_append:
  "schedule_points (xs @ ys) = schedule_points xs @ schedule_points ys"
  by (induction xs rule: schedule_points.induct) simp_all

lemma untils_append: "untils (xs @ ys) = untils xs @ untils ys"
  by (induction xs rule: untils.induct) simp_all

lemma sleeps_append: "sleeps (xs @ ys) = sleeps xs @ sleeps ys"
  by (induction xs rule: sleeps.induct) simp_all

lemma launches_append: "launches (xs @ ys) = launches xs @ launches ys"
  by (induction xs rule: launches.induct) simp_all

lemma goroutines_append: "goroutines (xs @ ys) = goroutines xs @ goroutines ys"
  by (induction xs rule: goroutines.induct) simp_all

lemma goroutines_launches: "map fst (goroutines es) = map fst (launches es)"
  by (induction es rule: goroutines.induct) simp_all

subsection \<open>Durations between instants\<close>

lemma sint_le_MaxInt64: "sint (d :: 64 word) \<le> MaxInt64"
  using sint_lt [of d] by (simp add: MaxInt64_def)

lemma Sub_small:
  "MinInt64 \<le> t - u \<Longrightarrow> t - u \<le> MaxInt64 \<Longrightarrow> Sub t u = word_of_int (t - u)"
  by (simp add: Sub_def)

lemma sint_Sub:
  "sint (Sub t u) = (if t - u < MinInt64 then MinInt64 else if MaxInt64 < t - u then MaxInt64 else t - u)"
proof -
  have top: "sint (word_of_int MaxInt64 :: 64 word) = MaxInt64"
    by (rule sint_in_range) (simp_all add: MinInt64_def MaxInt64_def)
  have bottom: "sint (word_of_int MinInt64 :: 64 word) = MinInt64"
    by (rule sint_in_range) (simp_all add: MinInt64_def MaxInt64_def)
  have middle: "sint (word_of_int (t - u) :: 64 word) = t - u"
    if "\<not> t - u < MinInt64" and "\<not> MaxInt64 < t - u"
    using that by (intro sint_in_range) simp_all
  show ?thesis
  proof (cases "t - u < MinInt64")
    case True
    then show ?thesis by (simp only: Sub_def if_True bottom)
  next
    case low: False
    show ?thesis
    proof (cases "MaxInt64 < t - u")
      case True
      then show ?thesis using low by (simp only: Sub_def if_True if_False top)
    next
      case False
      then have "sint (word_of_int (t - u) :: 64 word) = t - u" using low by (rule middle [rotated])
      then show ?thesis using low False by (simp only: Sub_def if_False)
    qed
  qed
qed

text \<open>
  Unless the instant \<open>t\<close> is further away than the largest duration, the pause that
  \<^verbatim>\<open>time.Sleep\<close> makes of \<^verbatim>\<open>t.Sub(u)\<close> is the time from \<open>u\<close> to \<open>t\<close>, or none.
\<close>

lemma Sub_pause:
  assumes "t \<le> u + MaxInt64"
  shows "max 0 (sint (Sub t u)) = max 0 (t - u)"
  using assms by (simp add: sint_Sub MinInt64_def)

subsection \<open>What each call does to the world\<close>

lemma Until_fields:
  "fst (Until t w) = Sub t (now w)"
  "trace (snd (Until t w)) = trace w @ [EvUntil t (now w) (Sub t (now w))]"
  "rand (snd (Until t w)) = rand w"
  "now (snd (Until t w)) = now w"
  by (simp_all add: Until_def observe_def)

lemma Sleep_fields:
  "trace (Sleep d w) = trace w @ [EvSleep d (now w) (now (Sleep d w))]"
  "rand (Sleep d w) = rand w"
  by (simp_all add: Sleep_def Let_def observe_def tick_def)

lemma Sleep_now:
  "now (Sleep d w) = (if sint d \<le> 0 then now w else now w + sint d + int (shd (lag w)))"
  by (simp add: Sleep_def Let_def observe_def tick_def)

lemma Sleep_at_least: "now w + max 0 (sint d) \<le> now (Sleep d w)"
  by (simp add: Sleep_now)

lemma wg_Start_fields:
  "fst (wg_Start f g w) = g @ [(f, exit_instant w)]"
  "trace (snd (wg_Start f g w)) = trace w @ [EvStart f (now w) (exit_instant w)]"
  "rand (snd (wg_Start f g w)) = rand w"
  "now w \<le> now (snd (wg_Start f g w))"
  by (simp_all add: wg_Start_def Let_def observe_def tick_def)

lemma wg_Wait_trace: "trace (world_of (wg_Wait g w)) = trace w @ [EvWait (map fst g)]"
  by (simp add: wg_Wait_def Let_def observe_def tick_def split: option.split)

lemma last_exit_Some:
  assumes "last_exit g t = Some c"
  shows "t \<le> c \<and> list_all (exited_by c) g"
  using assms
proof (induction g t rule: last_exit.induct)
  case (1 t)
  then show ?case by simp
next
  case (2 f g t)
  then show ?case by simp
next
  case (3 f x g t)
  then have a: "max x t \<le> c" and b: "list_all (exited_by c) g" by simp_all
  from a have "x \<le> c" and "t \<le> c" by simp_all
  then show ?case using b by simp
qed

lemma exited_by_mono: "exited_by t x \<Longrightarrow> t \<le> t' \<Longrightarrow> exited_by t' x"
proof (cases x)
  case (Pair f c)
  assume "exited_by t x" and "t \<le> t'"
  then show ?thesis using Pair by (cases c) simp_all
qed

text \<open>When \<^verbatim>\<open>wg.Wait()\<close> returns, every goroutine of the group has exited.\<close>

lemma wg_Wait_Returned:
  assumes "wg_Wait g w = Returned w'"
  shows "list_all (exited_by (now w')) g"
proof (cases "last_exit g (now w)")
  case None
  then show ?thesis using assms by (simp add: wg_Wait_def Let_def)
next
  case (Some c)
  then have c: "now w \<le> c" "list_all (exited_by c) g"
    using last_exit_Some by blast+
  have "c \<le> now w'"
    using assms Some c(1) by (auto simp: wg_Wait_def Let_def observe_def tick_def split: if_splits)
  then have "exited_by (now w') x" if "exited_by c x" for x :: "'a \<times> Time option"
    using that by (rule exited_by_mono [rotated])
  then show ?thesis
    using c(2) by (simp add: list_all_iff)
qed

subsection \<open>One iteration\<close>

lemma loop_Cons:
  "poissonLoad_loop arch rl (f # fs) t g w =
     poissonLoad_loop arch rl fs
       (Add t (sample arch (ExpectedActionsPerSecond (params rl)) (shd (rand w))))
       (g @ [(f, exit_instant (Sleep (Sub t (now w)) (snd (Until t w))))])
       ((snd (wg_Start f g (Sleep (Sub t (now w)) (snd (Until t w)))))
          \<lparr>rand := stl (rand w)\<rparr>)"
  by (simp add: interArrivalTime_sample split_beta Let_def wg_Start_fields Sleep_fields
      Until_fields)

lemma loop_Cons_trace:
  "trace ((snd (wg_Start f g (Sleep (Sub t (now w)) (snd (Until t w)))))\<lparr>rand := s\<rparr>) =
     trace w @
     [EvUntil t (now w) (Sub t (now w)),
      EvSleep (Sub t (now w)) (now w) (now (Sleep (Sub t (now w)) (snd (Until t w)))),
      EvStart f (now (Sleep (Sub t (now w)) (snd (Until t w))))
        (exit_instant (Sleep (Sub t (now w)) (snd (Until t w))))]"
  by (simp add: wg_Start_fields Sleep_fields Until_fields)

lemma loop_Cons_now:
  "now w \<le> now (Sleep (Sub t (now w)) (snd (Until t w)))"
  "now (Sleep (Sub t (now w)) (snd (Until t w)))
     \<le> now ((snd (wg_Start f g (Sleep (Sub t (now w)) (snd (Until t w)))))\<lparr>rand := s\<rparr>)"
proof -
  show "now w \<le> now (Sleep (Sub t (now w)) (snd (Until t w)))"
    using Sleep_at_least [of "snd (Until t w)" "Sub t (now w)"] by (simp add: Until_fields)
  show "now (Sleep (Sub t (now w)) (snd (Until t w)))
     \<le> now ((snd (wg_Start f g (Sleep (Sub t (now w)) (snd (Until t w)))))\<lparr>rand := s\<rparr>)"
    using wg_Start_fields(4) [of "Sleep (Sub t (now w)) (snd (Until t w))" f g] by simp
qed

text \<open>The events of the loop, and the group it hands to \<^verbatim>\<open>wg.Wait\<close>.\<close>

lemma loop_group:
  "\<exists>es. trace (snd (poissonLoad_loop arch rl fs t g w)) = trace w @ es
      \<and> fst (poissonLoad_loop arch rl fs t g w) = g @ goroutines es"
proof (induction fs arbitrary: t g w)
  case Nil
  show ?case by simp
next
  case (Cons f fs)
  let ?w2 = "Sleep (Sub t (now w)) (snd (Until t w))"
  let ?w = "(snd (wg_Start f g ?w2))\<lparr>rand := stl (rand w)\<rparr>"
  from Cons.IH [of "Add t (sample arch (ExpectedActionsPerSecond (params rl)) (shd (rand w)))"
      "g @ [(f, exit_instant ?w2)]" ?w]
  obtain es where es: "trace (snd (poissonLoad_loop arch rl (f # fs) t g w)) = trace ?w @ es"
      "fst (poissonLoad_loop arch rl (f # fs) t g w) = (g @ [(f, exit_instant ?w2)]) @ goroutines es"
    unfolding loop_Cons by blast
  let ?es = "[EvUntil t (now w) (Sub t (now w)), EvSleep (Sub t (now w)) (now w) (now ?w2),
      EvStart f (now ?w2) (exit_instant ?w2)] @ es"
  have "trace (snd (poissonLoad_loop arch rl (f # fs) t g w)) = trace w @ ?es"
    using es(1) by (simp add: loop_Cons_trace)
  moreover have "fst (poissonLoad_loop arch rl (f # fs) t g w) = g @ goroutines ?es"
    using es(2) by simp
  ultimately show ?case by blast
qed

text \<open>\<^verbatim>\<open>Execute\<close> is the loop, begun at the reading of the clock, and the final wait.\<close>

lemma Execute_loop:
  "poissonLoad_Execute arch rl actions w =
     wg_Wait (fst (poissonLoad_loop arch rl actions (now w) [] (observe (EvNow (now w)) w)))
       (snd (poissonLoad_loop arch rl actions (now w) [] (observe (EvNow (now w)) w)))"
  by (simp add: poissonLoad_Execute_def Now_def split_beta)

lemma Execute_trace:
  assumes "trace (snd (poissonLoad_loop arch rl actions (now w) [] (observe (EvNow (now w)) w)))
      = trace (observe (EvNow (now w)) w) @ es"
  shows "drop (length (trace w)) (trace (world_of (poissonLoad_Execute arch rl actions w))) =
      EvNow (now w) # es @
      [EvWait (map fst (fst (poissonLoad_loop arch rl actions (now w) []
         (observe (EvNow (now w)) w))))]"
  unfolding Execute_loop wg_Wait_trace assms by (simp add: observe_def)

subsection \<open>The schedule\<close>

lemma loop_schedule:
  "schedule_points (trace (snd (poissonLoad_loop arch rl fs t g w))) =
     schedule_points (trace w) @
     map (\<lambda>i. t + sum_list (take i
            (map (\<lambda>p. sint (sample arch (ExpectedActionsPerSecond (params rl)) p))
               (stake (length fs) (rand w)))))
       [0..<length fs]"
proof (induction fs arbitrary: t g w)
  case Nil
  show ?case by simp
next
  case (Cons f fs)
  have up: "[0..<length (f # fs)] = 0 # map Suc [0..<length fs]"
    by (simp add: upt_conv_Cons map_Suc_upt del: upt_Suc)
  show ?case
    unfolding loop_Cons Cons.IH loop_Cons_trace up
    by (simp add: schedule_points_append Add_def comp_def del: upt_Suc)
qed

text \<open>
  Claim C3. The instant \<^verbatim>\<open>actionNextLaunch\<close> that the loop hands to \<^verbatim>\<open>time.Until\<close> in
  its iteration \<open>i\<close> (counted from 0) is the result of the one call of
  \<^verbatim>\<open>time.Now()\<close> before the loop plus the sum of the first \<open>i\<close> samples. The samples
  are those of the successive draws of the random source (\<open>sample\<close> is what
  \<^verbatim>\<open>interArrivalTime\<close> returns for a draw, see \<open>interArrivalTime_sample\<close>); the time the
  loop loses (the field \<open>lag\<close> of the world) and the time the actions take (the field
  \<open>runs\<close>) do not occur in the schedule.
\<close>

theorem Execute_schedule:
  "schedule_points (trace (world_of (poissonLoad_Execute arch rl actions w))) =
     schedule_points (trace w) @
     map (\<lambda>i. now w + sum_list (take i
            (map (\<lambda>p. sint (sample arch (ExpectedActionsPerSecond (params rl)) p))
               (stake (length actions) (rand w)))))
       [0..<length actions]"
  unfolding Execute_loop wg_Wait_trace
  by (simp add: schedule_points_append loop_schedule observe_def)

subsection \<open>The launches\<close>

lemma loop_launches:
  "map fst (launches (trace (snd (poissonLoad_loop arch rl fs t g w)))) =
     map fst (launches (trace w)) @ fs"
proof (induction fs arbitrary: t g w)
  case Nil
  show ?case by simp
next
  case (Cons f fs)
  show ?case
    unfolding loop_Cons Cons.IH loop_Cons_trace
    by (simp add: launches_append)
qed

text \<open>
  Claim C4. The actions that one call of \<^verbatim>\<open>Execute\<close> hands to \<^verbatim>\<open>wg.Start\<close>, in the
  order of the calls, are the actions of the input, in the order of the input:
  each position of the input is launched once, none is left out, and the launch of
  position \<open>i\<close> comes before the launch of position \<open>i + 1\<close>.
\<close>

theorem Execute_launches_in_order:
  "map fst (launches (trace (world_of (poissonLoad_Execute arch rl actions w)))) =
     map fst (launches (trace w)) @ actions"
  unfolding Execute_loop wg_Wait_trace
  by (simp add: launches_append loop_launches observe_def)

lemma loop_instants:
  "\<exists>es. trace (snd (poissonLoad_loop arch rl fs t g w)) = trace w @ es
      \<and> sorted (map snd (launches es))
      \<and> list_all (\<lambda>x. now w \<le> snd x) (launches es)"
proof (induction fs arbitrary: t g w)
  case Nil
  show ?case by simp
next
  case (Cons f fs)
  let ?w2 = "Sleep (Sub t (now w)) (snd (Until t w))"
  let ?w = "(snd (wg_Start f g ?w2))\<lparr>rand := stl (rand w)\<rparr>"
  have a: "now w \<le> now ?w2" by (rule loop_Cons_now)
  have b: "now ?w2 \<le> now ?w" by (rule loop_Cons_now)
  from Cons.IH [of "Add t (sample arch (ExpectedActionsPerSecond (params rl)) (shd (rand w)))"
      "g @ [(f, exit_instant ?w2)]" ?w]
  obtain es where es: "trace (snd (poissonLoad_loop arch rl (f # fs) t g w)) = trace ?w @ es"
      "sorted (map snd (launches es))" "list_all (\<lambda>x. now ?w \<le> snd x) (launches es)"
    unfolding loop_Cons by blast
  let ?es = "[EvUntil t (now w) (Sub t (now w)), EvSleep (Sub t (now w)) (now w) (now ?w2),
      EvStart f (now ?w2) (exit_instant ?w2)] @ es"
  have "trace (snd (poissonLoad_loop arch rl (f # fs) t g w)) = trace w @ ?es"
    using es(1) by (simp add: loop_Cons_trace)
  moreover have "sorted (map snd (launches ?es))"
    using es(2,3) b by (auto simp: list_all_iff)
  moreover have "list_all (\<lambda>x. now w \<le> snd x) (launches ?es)"
    using es(3) a b by (auto simp: list_all_iff)
  ultimately show ?case by blast
qed

text \<open>
  Claim C6. The instants at which one call of \<^verbatim>\<open>Execute\<close> calls \<^verbatim>\<open>wg.Start\<close>, in the
  order of the calls, never decrease. (The events of the call are those after the
  trace it started with.)
\<close>

theorem Execute_launch_instants_sorted:
  "sorted (map snd (launches (drop (length (trace w))
      (trace (world_of (poissonLoad_Execute arch rl actions w))))))"
proof -
  obtain es where es:
    "trace (snd (poissonLoad_loop arch rl actions (now w) [] (observe (EvNow (now w)) w)))
       = trace (observe (EvNow (now w)) w) @ es"
    "sorted (map snd (launches es))"
    using loop_instants by blast
  show ?thesis
    unfolding Execute_trace [OF es(1)] using es(2) by (simp add: launches_append)
qed

subsection \<open>No actions\<close>

text \<open>
  Claim C8. With no actions, whatever the mean rate, \<^verbatim>\<open>Execute\<close> reads the clock
  once, waits on the empty group and returns: the trace grows by these two calls
  and by no call of \<^verbatim>\<open>time.Sleep\<close> or \<^verbatim>\<open>wg.Start\<close>, and the clock and the random
  source are as before (no sample is drawn, and the call pauses nowhere).
\<close>

theorem Execute_no_actions:
  "poissonLoad_Execute arch rl [] w =
     Returned (w\<lparr>trace := trace w @ [EvNow (now w), EvWait []]\<rparr>)
   \<and> sleeps (trace (world_of (poissonLoad_Execute arch rl [] w))) = sleeps (trace w)
   \<and> launches (trace (world_of (poissonLoad_Execute arch rl [] w))) = launches (trace w)
   \<and> rand (world_of (poissonLoad_Execute arch rl [] w)) = rand w
   \<and> now (world_of (poissonLoad_Execute arch rl [] w)) = now w"
  by (simp add: poissonLoad_Execute_def Now_def wg_Wait_def observe_def sleeps_append
      launches_append)

subsection \<open>The final wait\<close>

lemma loop_group_actions:
  "map fst (fst (poissonLoad_loop arch rl fs t g w)) = map fst g @ fs"
proof (induction fs arbitrary: t g w)
  case Nil
  show ?case by simp
next
  case (Cons f fs)
  show ?case unfolding loop_Cons Cons.IH by simp
qed

text \<open>
  Claim C5. When \<^verbatim>\<open>Execute\<close> returns, every goroutine it has started with
  \<^verbatim>\<open>wg.Start\<close> has exited, at the instant of the return or before, and these
  goroutines are those of the supplied actions, one for each: as many exits as
  launches. (When an action never returns, \<^verbatim>\<open>Execute\<close> does not return either, see
  \<open>Execute_Blocked\<close> below.)
\<close>

theorem Execute_returns_after_exits:
  assumes "poissonLoad_Execute arch rl actions w = Returned w'"
  shows "list_all (exited_by (now w')) (goroutines (drop (length (trace w)) (trace w')))
       \<and> map fst (goroutines (drop (length (trace w)) (trace w'))) = actions"
proof -
  let ?w0 = "observe (EvNow (now w)) w"
  let ?g = "fst (poissonLoad_loop arch rl actions (now w) [] ?w0)"
  obtain es where es:
    "trace (snd (poissonLoad_loop arch rl actions (now w) [] ?w0)) = trace ?w0 @ es"
    "?g = [] @ goroutines es"
    using loop_group by blast
  have "world_of (poissonLoad_Execute arch rl actions w) = w'"
    using assms by simp
  then have "drop (length (trace w)) (trace w') = EvNow (now w) # es @ [EvWait (map fst ?g)]"
    using Execute_trace [OF es(1)] by simp
  then have g: "goroutines (drop (length (trace w)) (trace w')) = ?g"
    using es(2) by (simp add: goroutines_append)
  have "wg_Wait ?g (snd (poissonLoad_loop arch rl actions (now w) [] ?w0)) = Returned w'"
    using assms by (simp only: Execute_loop)
  then have "list_all (exited_by (now w')) ?g" by (rule wg_Wait_Returned)
  moreover have "map fst ?g = actions" by (simp add: loop_group_actions)
  ultimately show ?thesis by (simp only: g simp_thms)
qed

subsection \<open>The pauses\<close>

lemma pause_reaches:
  assumes "t \<le> now w + MaxInt64"
  shows "if t \<le> now w
         then now (Sleep (Sub t (now w)) (snd (Until t w))) = now w
         else t \<le> now (Sleep (Sub t (now w)) (snd (Until t w)))"
proof -
  have p: "max 0 (sint (Sub t (now w))) = max 0 (t - now w)"
    using assms by (rule Sub_pause)
  show ?thesis
  proof (cases "t \<le> now w")
    case True
    then have "sint (Sub t (now w)) \<le> 0" using p by simp
    then show ?thesis using True by (simp add: Sleep_now Until_fields)
  next
    case False
    then have "sint (Sub t (now w)) = t - now w" using p by simp
    then show ?thesis using False by (simp add: Sleep_now Until_fields)
  qed
qed

lemma loop_pauses:
  assumes "t \<le> now w + MaxInt64"
  shows "\<exists>es. trace (snd (poissonLoad_loop arch rl fs t g w)) = trace w @ es
      \<and> list_all2
           (\<lambda>(t, u, d) (d', s, e).
              d' = d \<and> s = u \<and> max 0 (sint d) = max 0 (t - u) \<and> (if t \<le> u then e = s else t \<le> e))
           (untils es) (sleeps es)
      \<and> list_all2 (\<lambda>t x. t \<le> snd x) (schedule_points es) (launches es)
      \<and> length (sleeps es) = length fs"
  using assms
proof (induction fs arbitrary: t g w)
  case Nil
  show ?case by simp
next
  case (Cons f fs)
  let ?w2 = "Sleep (Sub t (now w)) (snd (Until t w))"
  let ?w = "(snd (wg_Start f g ?w2))\<lparr>rand := stl (rand w)\<rparr>"
  let ?a = "sample arch (ExpectedActionsPerSecond (params rl)) (shd (rand w))"
  have p: "max 0 (sint (Sub t (now w))) = max 0 (t - now w)"
    using Cons.prems by (rule Sub_pause)
  have q: "if t \<le> now w then now ?w2 = now w else t \<le> now ?w2"
    using Cons.prems by (rule pause_reaches)
  then have a: "t \<le> now ?w2" by (simp split: if_splits)
  have b: "now ?w2 \<le> now ?w" by (rule loop_Cons_now)
  have "Add t ?a \<le> now ?w + MaxInt64"
    using a b sint_le_MaxInt64 [of ?a] by (simp add: Add_def)
  from Cons.IH [OF this, of "g @ [(f, exit_instant ?w2)]"]
  obtain es where es: "trace (snd (poissonLoad_loop arch rl (f # fs) t g w)) = trace ?w @ es"
      "list_all2
           (\<lambda>(t, u, d) (d', s, e).
              d' = d \<and> s = u \<and> max 0 (sint d) = max 0 (t - u) \<and> (if t \<le> u then e = s else t \<le> e))
           (untils es) (sleeps es)"
      "list_all2 (\<lambda>t x. t \<le> snd x) (schedule_points es) (launches es)"
      "length (sleeps es) = length fs"
    unfolding loop_Cons by blast
  let ?es = "[EvUntil t (now w) (Sub t (now w)), EvSleep (Sub t (now w)) (now w) (now ?w2),
      EvStart f (now ?w2) (exit_instant ?w2)] @ es"
  have "trace (snd (poissonLoad_loop arch rl (f # fs) t g w)) = trace w @ ?es"
    using es(1) by (simp add: loop_Cons_trace)
  moreover have "list_all2
           (\<lambda>(t, u, d) (d', s, e).
              d' = d \<and> s = u \<and> max 0 (sint d) = max 0 (t - u) \<and> (if t \<le> u then e = s else t \<le> e))
           (untils ?es) (sleeps ?es)"
    using es(2) p q by simp
  moreover have "list_all2 (\<lambda>t x. t \<le> snd x) (schedule_points ?es) (launches ?es)"
    using es(3) a by simp
  moreover have "length (sleeps ?es) = length (f # fs)"
    using es(4) by simp
  ultimately show ?case by blast
qed

text \<open>
  Claim C7, amended. In each iteration the loop asks \<^verbatim>\<open>time.Until\<close> for the time
  \<open>d\<close> from the reading \<open>u\<close> of the clock to the schedule point \<open>t\<close> and calls
  \<^verbatim>\<open>time.Sleep\<close> with it, at \<open>s = u\<close>. The pause asked for, \<open>max 0 d\<close>, is exactly
  \<open>max 0 (t - u)\<close>. When the schedule point is not in the future, the call returns at
  the instant \<open>e = s\<close> at which it was made; otherwise it returns when the clock has
  reached the schedule point: at \<open>t\<close> or later, never earlier. There is one call
  of \<^verbatim>\<open>time.Sleep\<close> for each action.
\<close>

theorem Execute_pauses:
  "list_all2
     (\<lambda>(t, u, d) (d', s, e).
        d' = d \<and> s = u \<and> max 0 (sint d) = max 0 (t - u) \<and> (if t \<le> u then e = s else t \<le> e))
     (untils (drop (length (trace w)) (trace (world_of (poissonLoad_Execute arch rl actions w)))))
     (sleeps (drop (length (trace w)) (trace (world_of (poissonLoad_Execute arch rl actions w)))))
   \<and> length (sleeps (drop (length (trace w))
        (trace (world_of (poissonLoad_Execute arch rl actions w))))) = length actions"
proof -
  have "now w \<le> now (observe (EvNow (now w)) w) + MaxInt64"
    by (simp add: observe_def MaxInt64_def)
  from loop_pauses [OF this, of arch rl actions "[]"]
  obtain es where es:
    "trace (snd (poissonLoad_loop arch rl actions (now w) [] (observe (EvNow (now w)) w)))
       = trace (observe (EvNow (now w)) w) @ es"
    "list_all2
       (\<lambda>(t, u, d) (d', s, e).
          d' = d \<and> s = u \<and> max 0 (sint d) = max 0 (t - u) \<and> (if t \<le> u then e = s else t \<le> e))
       (untils es) (sleeps es)"
    "length (sleeps es) = length actions"
    by blast
  show ?thesis
    unfolding Execute_trace [OF es(1)] using es(2,3) by (simp add: untils_append sleeps_append)
qed

text \<open>Hence no action is launched before its place in the schedule.\<close>

lemma Execute_on_time:
  "list_all2 (\<lambda>t x. t \<le> snd x)
     (schedule_points (drop (length (trace w))
        (trace (world_of (poissonLoad_Execute arch rl actions w)))))
     (launches (drop (length (trace w))
        (trace (world_of (poissonLoad_Execute arch rl actions w)))))"
proof -
  have "now w \<le> now (observe (EvNow (now w)) w) + MaxInt64"
    by (simp add: observe_def MaxInt64_def)
  from loop_pauses [OF this, of arch rl actions "[]"]
  obtain es where es:
    "trace (snd (poissonLoad_loop arch rl actions (now w) [] (observe (EvNow (now w)) w)))
       = trace (observe (EvNow (now w)) w) @ es"
    "list_all2 (\<lambda>t x. t \<le> snd x) (schedule_points es) (launches es)"
    by blast
  show ?thesis
    unfolding Execute_trace [OF es(1)] using es(2)
    by (simp add: schedule_points_append launches_append)
qed

subsection \<open>A run\<close>

text \<open>
  Two actions at one action per second, in a world where the clock reads 100, every
  draw is one half (so every sample is \<open>half_sample\<close>, some 0.69 seconds), the driving
  goroutine loses 7 nanoseconds whenever it loses time, and every goroutine exits
  1000 nanoseconds after its start. The first action is launched at 100, at once;
  the second one is due at \<open>100 + half_sample\<close>; the loop is back at 107, sleeps, and
  launches it at \<open>107 + half_sample\<close>; the final wait lasts until the second goroutine
  has exited.
\<close>

lemma half_sample_bounds: "500000000 \<le> half_sample" "half_sample \<le> 2000000000"
proof -
  have "real_of_int 500000000 \<le> 1000000000 * ln 2"
    using ln2_ge_half by simp
  then show "500000000 \<le> half_sample"
    unfolding half_sample_def by (simp only: le_floor_iff)
  have a: "ln (2::real) < 2" by (rule ln_less_self) simp
  have "1000000000 * ln (2::real) < 1000000000 * 2"
    using a by (simp only: mult_less_cancel_left_pos zero_less_numeral)
  then have "1000000000 * ln (2::real) < real_of_int 2000000000 + 1" by linarith
  then have "half_sample < 2000000000 + 1"
    unfolding half_sample_def by (simp only: floor_less_iff)
  then show "half_sample \<le> 2000000000" by simp
qed

lemma sint_half_sample: "sint (sample arch 1 (1 / 2)) = half_sample"
proof -
  have h: "1000000000 * (- ln (1 - 1 / 2) / 1) < (2::real) ^ 63"
    by (rule half_sample_bound) simp
  have p: "(0::real) < 1" "(0::real) \<le> 1 / 2" "(1 / 2 :: real) < 1" by simp_all
  have "sint (sample arch 1 (1 / 2)) = \<lfloor>1000000000 * (- ln (1 - 1 / 2 :: real) / 1)\<rfloor>"
    using sample_in_range(1) [where arch = arch, OF p h] sample_in_range(3,4) [OF p h] by (simp only: sint_in_range)
  then show ?thesis by (simp only: neg_ln_half div_by_1 half_sample_def)
qed

lemma sint_Sub_run:
  "sint (Sub 100 100) = 0"
  "sint (Sub (100 + half_sample) 107) = half_sample - 7"
  using half_sample_bounds by (simp_all add: sint_Sub MinInt64_def MaxInt64_def)

lemma Execute_run:
  "poissonLoad_Execute amd64 (newPoissonLoad \<lparr>ExpectedActionsPerSecond = 1\<rparr>)
      [''a'', ''b''] (steady 100 (1 / 2) 7) = Returned run_end"
  unfolding Execute_loop loop_Cons poissonLoad_loop.simps run_end_def
  using half_sample_bounds
  by (simp add: steady_def observe_def Until_def Sleep_def wg_Start_def wg_Wait_def tick_def
      exit_instant_def Add_def newPoissonLoad_def sint_half_sample sint_Sub_run Let_def)

text \<open>At the end of this run both goroutines have exited.\<close>

theorem Execute_returns_after_exits_witness:
  "poissonLoad_Execute amd64 (newPoissonLoad \<lparr>ExpectedActionsPerSecond = 1\<rparr>)
      [''a'', ''b''] (steady 100 (1 / 2) 7) = Returned run_end
   \<and> list_all (exited_by (now run_end))
        (goroutines (drop (length (trace (steady 100 (1 / 2) 7))) (trace run_end)))
   \<and> map fst (goroutines (drop (length (trace (steady 100 (1 / 2) 7))) (trace run_end)))
       = [''a'', ''b'']"
  using Execute_returns_after_exits [OF Execute_run] Execute_run by simp

text \<open>
  The claim C7 as it stands, a pause of exactly \<open>max 0 (t - u)\<close>, fails in this run:
  the second call of \<^verbatim>\<open>time.Sleep\<close> is made at 107 for the schedule point
  \<open>100 + half_sample\<close> and returns at \<open>107 + half_sample\<close>, 7 nanoseconds late.
\<close>

theorem Execute_pause_overshoots:
  "untils (trace (world_of (poissonLoad_Execute amd64
      (newPoissonLoad \<lparr>ExpectedActionsPerSecond = 1\<rparr>) [''a'', ''b''] (steady 100 (1 / 2) 7)))) ! 1
     = (100 + half_sample, 107, Sub (100 + half_sample) 107)
   \<and> sleeps (trace (world_of (poissonLoad_Execute amd64
      (newPoissonLoad \<lparr>ExpectedActionsPerSecond = 1\<rparr>) [''a'', ''b''] (steady 100 (1 / 2) 7)))) ! 1
     = (Sub (100 + half_sample) 107, 107, 107 + half_sample)
   \<and> (107 + half_sample) - 107 \<noteq> max 0 (100 + half_sample - 107)"
  using half_sample_bounds by (simp add: Execute_run run_end_def)

subsection \<open>Actions that never return\<close>

text \<open>\<^verbatim>\<open>Execute\<close> stays blocked in \<^verbatim>\<open>wg.Wait()\<close> exactly when one of its goroutines never exits.\<close>

lemma last_exit_None: "last_exit g t = None \<longleftrightarrow> None \<in> snd ` set g"
  by (induction g t rule: last_exit.induct) auto

lemma Execute_Blocked:
  "(\<exists>w'. poissonLoad_Execute arch rl actions w = Blocked w') \<longleftrightarrow>
     None \<in> snd ` set (goroutines (drop (length (trace w))
        (trace (world_of (poissonLoad_Execute arch rl actions w)))))"
proof -
  let ?w0 = "observe (EvNow (now w)) w"
  let ?L = "poissonLoad_loop arch rl actions (now w) [] ?w0"
  obtain es where es: "trace (snd ?L) = trace ?w0 @ es" "fst ?L = [] @ goroutines es"
    using loop_group by blast
  have g: "goroutines (drop (length (trace w))
      (trace (world_of (poissonLoad_Execute arch rl actions w)))) = fst ?L"
    unfolding Execute_trace [OF es(1)] using es(2) by (simp add: goroutines_append)
  have "(\<exists>w'. poissonLoad_Execute arch rl actions w = Blocked w') \<longleftrightarrow>
      last_exit (fst ?L) (now (snd ?L)) = None"
    unfolding Execute_loop by (auto simp: wg_Wait_def Let_def split: option.splits)
  then show ?thesis by (simp only: g last_exit_None)
qed

section \<open>The action switch of the etcd metrics measurement\<close>

text \<open>
  Claim C10, amended. When the lookup of the action gives a string other than
  \<^verbatim>\<open>start\<close> and \<^verbatim>\<open>gather\<close>, \<^verbatim>\<open>Execute\<close> returns the empty list of summaries together
  with an error and leaves the measurement as it was. The error names the unknown
  action when the lookups of the provider and of the host succeed; otherwise it is
  the error of the first of the two lookups that fails.
\<close>

theorem etcd_Execute_unknown_action:
  assumes "GetString x (Params config) ''action'' = Inr action"
    and "action \<noteq> ''start''" and "action \<noteq> ''gather''"
  shows "etcdMetricsMeasurement_Execute x config e =
     Return (([], Some
        (case GetStringOrDefault x (Params config) ''provider'' (ClusterConfig_Provider x) of
           Inl err \<Rightarrow> err
         | Inr provider \<Rightarrow>
             (case GetStringOrDefault x (Params config) ''host'' (ClusterConfig_MasterIP x) of
                Inl err \<Rightarrow> err
              | Inr host \<Rightarrow> UnknownAction action))), e)"
  using assms by (simp add: etcdMetricsMeasurement_Execute_def split: sum.splits)

text \<open>The action \<^verbatim>\<open>stop\<close>, with the provider and the host left to their defaults.\<close>

theorem etcd_Execute_unknown_action_witness:
  "GetString testbed (Params stop_request) ''action'' = Inr ''stop''
   \<and> etcdMetricsMeasurement_Execute testbed stop_request
        (createEtcdMetricsMeasurement :: nat etcdMetricsMeasurement) =
       Return (([], Some (UnknownAction ''stop'')), createEtcdMetricsMeasurement)"
proof -
  have a: "GetString (testbed :: (string \<rightharpoonup> dyn, nat) externals) (Params stop_request)
      ''action'' = Inr ''stop''"
    by (simp add: testbed_def stop_request_def lookup_string_def)
  have b: "''stop'' \<noteq> ''start''" "''stop'' \<noteq> ''gather''" by simp_all
  show ?thesis
    using etcd_Execute_unknown_action [OF a b, of "createEtcdMetricsMeasurement"] a
    by (simp add: testbed_def stop_request_def lookup_string_def)
qed

text \<open>
  The claim as it stands fails for a request whose provider is not a string: the
  error that comes back is the one of the lookup of the provider, and it does not
  name the action.
\<close>

theorem etcd_Execute_ill_typed_provider:
  "GetString testbed (Params ill_typed_request) ''action'' = Inr ''stop''
   \<and> etcdMetricsMeasurement_Execute testbed ill_typed_request
        (createEtcdMetricsMeasurement :: nat etcdMetricsMeasurement) =
       Return (([], Some (TypeAssertion ''provider'')), createEtcdMetricsMeasurement)
   \<and> TypeAssertion ''provider'' \<noteq> UnknownAction ''stop''"
  by (simp add: etcdMetricsMeasurement_Execute_def testbed_def ill_typed_request_def
      lookup_string_def)

end
